theory Spec2Isabelle
  imports Complex_Main "HOL-Library.Sublist"
begin

section \<open>Data model (types.ts and the state hooks of App)\<close>

text \<open>
  Strings of the source are modelled as \<open>string\<close>; a literal outside ASCII is written as
  the list of its UTF-8 bytes. Only equality of strings is ever used by the code modelled
  here, and UTF-8 is injective on well-formed strings.
\<close>

datatype PageType =
  P_recommendation | P_etymology | P_vocabulary | P_dialogue | P_translation | P_recognition

text \<open>
  \<open>interface Word\<close>, with the \<open>isSelected\<close> property that the vocabulary entries of
  \<open>App\<close> carry. Optional properties are options; \<open>proficiency: number\<close> is a real.
\<close>

record Word =
  word :: string
  pinyin :: string
  meaning :: string
  culturalNote :: "string option"
  proficiency :: real
  category :: "string option"
  isFavorite :: "bool option"
  isSelected :: "bool option"

text \<open>A component of an etymology, with the \<open>imageUrl\<close> the service may attach.\<close>

record Component =
  comp_char :: string
  comp_meaning :: string
  imageUrl :: "string option"

text \<open>
  The object \<open>getEtymology\<close> parses and returns. Neither property is required by the
  response schema, and the service tests \<open>data.components\<close> before using it.
\<close>

record Etymology =
  components :: "Component list option"
  culturalContext :: "string option"

text \<open>One line of a review dialogue (the response schema of \<open>getReviewDialogue\<close>).\<close>

record DialogueLine =
  speaker :: string
  line_text :: string
  line_pinyin :: "string option"
  translation :: "string option"
  blankWord :: "string option"
  hintImagePrompt :: "string option"
  hintImageUrl :: "string option"

text \<open>The object \<open>getReviewDialogue\<close> parses: no property is required by the schema.\<close>

record ReviewJson =
  json_scenario :: "string option"
  json_dialogue :: "DialogueLine list option"

text \<open>
  The object \<open>getReviewDialogue\<close> returns: it has iterated over \<open>data.dialogue\<close>, so the
  dialogue is there.
\<close>

record ReviewData =
  scenario :: "string option"
  dialogue :: "DialogueLine list"

record ChatTurn =
  role :: string
  turn_text :: string

text \<open>The thirteen \<open>useState\<close> hooks of \<open>App\<close>.\<close>

record AppState =
  activePage :: PageType
  nativeLang :: string
  level :: string
  loading :: bool
  recommendedWords :: "Word list"
  currentEtymology :: "(string \<times> Etymology) option"
  vocabulary :: "Word list"
  reviewData :: "ReviewData option"
  reviewAnswers :: "nat \<rightharpoonup> string"
  reviewStep :: nat
  chatHistory :: "ChatTurn list"
  imageResult :: "string option"
  capturedImage :: "string option"

text \<open>What a rejected promise carries.\<close>

datatype error = BackendError | SyntaxError | TypeError

text \<open>JavaScript truthiness of an optional string and of an optional boolean.\<close>

definition truthy :: "string option \<Rightarrow> bool" where
  "truthy x = (case x of None \<Rightarrow> False | Some t \<Rightarrow> t \<noteq> [])"

definition selected_flag :: "Word \<Rightarrow> bool" where
  "selected_flag w = (isSelected w = Some True)"

definition seedWord :: "string \<Rightarrow> string \<Rightarrow> string \<Rightarrow> real \<Rightarrow> string \<Rightarrow> bool \<Rightarrow> Word" where
  "seedWord w p m prof cat fav =
     \<lparr>word = w, pinyin = p, meaning = m, culturalNote = None, proficiency = prof,
      category = Some cat, isFavorite = Some fav, isSelected = Some True\<rparr>"

definition initialVocabulary :: "Word list" where
  "initialVocabulary =
     [seedWord [CHR 0xE5, CHR 0x8F, CHR 0x91, CHR 0xE7, CHR 0xA5, CHR 0xA8]
        (''F'' @ [CHR 0xC4, CHR 0x81] @ '' pi'' @ [CHR 0xC3, CHR 0xA0] @ ''o'')
        ''Receipt / Invoice'' 45 ''Business'' True,
      seedWord [CHR 0xE7, CHR 0x99, CHR 0xBB, CHR 0xE6, CHR 0x9C, CHR 0xBA, CHR 0xE7, CHR 0x89, CHR 0x8C]
        (''D'' @ [CHR 0xC4, CHR 0x93] @ ''ng j'' @ [CHR 0xC4, CHR 0xAB] @ '' p'' @ [CHR 0xC3, CHR 0xA1] @ ''i'')
        ''Boarding Pass'' 80 ''Travel'' False,
      seedWord [CHR 0xE7, CHR 0x9F, CHR 0x9B, CHR 0xE7, CHR 0x9B, CHR 0xBE]
        (''M'' @ [CHR 0xC3, CHR 0xA1] @ ''o d'' @ [CHR 0xC3, CHR 0xB9] @ ''n'')
        ''Contradiction'' 65 ''General'' False,
      seedWord [CHR 0xE5, CHR 0x86, CHR 0x85, CHR 0xE5, CHR 0x8D, CHR 0xB7]
        (''N'' @ [CHR 0xC3, CHR 0xA8] @ ''i ju'' @ [CHR 0xC7, CHR 0x8E] @ ''n'')
        ''Involution'' 20 ''Culture'' True,
      seedWord [CHR 0xE5, CHR 0x92, CHR 0x96, CHR 0xE5, CHR 0x95, CHR 0xA1]
        (''K'' @ [CHR 0xC4, CHR 0x81] @ '' f'' @ [CHR 0xC4, CHR 0x93] @ ''i'')
        ''Coffee'' 95 ''Daily'' False]"

definition initialState :: AppState where
  "initialState =
     \<lparr>activePage = P_recommendation, nativeLang = ''English'', level = ''HSK 3'',
      loading = False, recommendedWords = [], currentEtymology = None,
      vocabulary = initialVocabulary, reviewData = None, reviewAnswers = Map.empty,
      reviewStep = 0, chatHistory = [], imageResult = None, capturedImage = None\<rparr>"

section \<open>Model gateway (geminiService)\<close>

text \<open>
  The backend is outside the repository: each service function takes, as its first
  arguments, what \<open>ai.models.generateContent\<close> does on the requests it sends. A
  JSON-returning call ends in one of four ways: the promise rejects; the response has no
  text, so that the default of \<open>response.text || "..."\<close> is parsed; \<open>JSON.parse\<close> throws;
  or it yields a value of the shape of the response schema.
\<close>

datatype 'a reply = Rejected | NoText | Malformed | Parsed 'a

text \<open>A call whose \<open>response.text\<close> is returned as it is (possibly undefined).\<close>

datatype text_reply = TextRejected | TextResponse "string option"

text \<open>
  A call read through \<open>candidates[0].content.parts\<close>: each candidate is its list of parts
  if it has one, each part is the \<open>data\<close> of its \<open>inlineData\<close> if it has one.
\<close>

type_synonym part = "string option"

datatype image_reply = ImgRejected | ImgResponse "part list option list"

definition vocabularyPrompt :: "string \<Rightarrow> string \<Rightarrow> string" where
  "vocabularyPrompt nativeLanguage lvl =
     ''Recommend 5 high-frequency Chinese words for a '' @ nativeLanguage @ '' speaker at '' @
     lvl @ '' level. '' @ [CHR 0x0A] @
     ''      Include pinyin, English meaning, and a brief cultural note if applicable. '' @
     [CHR 0x0A] @
     ''      Format as JSON array of objects with keys: word, pinyin, meaning, culturalNote, proficiency (random 0-100).''"

definition getVocabularyRecommendations ::
  "(string \<Rightarrow> Word list reply) \<Rightarrow> string \<Rightarrow> string \<Rightarrow> error + Word list" where
  "getVocabularyRecommendations gen nativeLanguage lvl =
     (case gen (vocabularyPrompt nativeLanguage lvl) of
        Rejected \<Rightarrow> Inl BackendError
      | NoText \<Rightarrow> Inr []
      | Malformed \<Rightarrow> Inl SyntaxError
      | Parsed ws \<Rightarrow> Inr ws)"

definition imagePrefix :: string where
  "imagePrefix = ''data:image/png;base64,''"

text \<open>
  The loop over the parts of an image response: every part with \<open>inlineData\<close> overwrites
  the url, so the last one stays.
\<close>

fun assignParts :: "part list \<Rightarrow> string option \<Rightarrow> string option" where
  "assignParts [] url = url"
| "assignParts (p # ps) url =
     assignParts ps (case p of None \<Rightarrow> url | Some d \<Rightarrow> Some (imagePrefix @ d))"

text \<open>
  The body of the \<open>try\<close> block around a dependent image call, on the url the item has so
  far: \<open>Inl\<close> when it throws (the call rejects, or \<open>candidates[0].content.parts\<close> is not
  there to iterate over).
\<close>

definition imageAttempt :: "image_reply \<Rightarrow> string option \<Rightarrow> error + string option" where
  "imageAttempt r url =
     (case r of
        ImgRejected \<Rightarrow> Inl BackendError
      | ImgResponse cands \<Rightarrow>
          (case cands of
             [] \<Rightarrow> Inl TypeError
           | None # _ \<Rightarrow> Inl TypeError
           | Some ps # _ \<Rightarrow> Inr (assignParts ps url)))"

text \<open>With its \<open>catch\<close>: the error is logged and dropped, the url stays as it was.\<close>

definition tryImage :: "image_reply \<Rightarrow> string option \<Rightarrow> string option" where
  "tryImage r url = (case imageAttempt r url of Inl e \<Rightarrow> url | Inr u \<Rightarrow> u)"

definition etymologyPrompt :: "string \<Rightarrow> string" where
  "etymologyPrompt w =
     ''Deconstruct the Chinese character '' @ [CHR 0x22] @ w @ [CHR 0x22] @ ''. '' @
     [CHR 0x0A] @
     ''      Provide the components (radicals), their meanings, and the historical/cultural origin of the character.'' @
     [CHR 0x0A] @
     ''      Format as JSON object with keys: components (array of {char, meaning}), culturalContext.''"

definition radicalPrompt :: "Component \<Rightarrow> string" where
  "radicalPrompt cmp =
     ''A simple, elegant pictographic illustration of the Chinese radical '' @ [CHR 0x22] @
     comp_char cmp @ [CHR 0x22] @ '' which means '' @ [CHR 0x22] @ comp_meaning cmp @ [CHR 0x22] @
     ''. The style should be like a traditional ink wash painting or a clean modern icon that clearly shows the connection between the character'' @
     [CHR 0x27] @ ''s shape and its meaning.''"

text \<open>
  \<open>for (const comp of data.components)\<close>, one image call after the other. The image
  backend \<open>img\<close> is asked with the position of the item and the prompt, so that two calls
  with the same prompt may differ.
\<close>

fun radicalImages :: "(nat \<Rightarrow> string \<Rightarrow> image_reply) \<Rightarrow> nat \<Rightarrow> Component list \<Rightarrow> Component list" where
  "radicalImages img k [] = []"
| "radicalImages img k (cmp # cs) =
     cmp\<lparr>imageUrl := tryImage (img k (radicalPrompt cmp)) (imageUrl cmp)\<rparr>
       # radicalImages img (k + 1) cs"

definition getEtymology ::
  "(string \<Rightarrow> Etymology reply) \<Rightarrow> (nat \<Rightarrow> string \<Rightarrow> image_reply) \<Rightarrow> string \<Rightarrow> error + Etymology" where
  "getEtymology gen img w =
     (case gen (etymologyPrompt w) of
        Rejected \<Rightarrow> Inl BackendError
      | NoText \<Rightarrow> Inr \<lparr>components = None, culturalContext = None\<rparr>
      | Malformed \<Rightarrow> Inl SyntaxError
      | Parsed data \<Rightarrow>
          (case components data of
             None \<Rightarrow> Inr data
           | Some cs \<Rightarrow> Inr (data\<lparr>components := Some (radicalImages img 0 cs)\<rparr>)))"

text \<open>The string in an optional string that is known to be there.\<close>

definition textOf :: "string option \<Rightarrow> string" where
  "textOf x = (case x of None \<Rightarrow> [] | Some t \<Rightarrow> t)"

text \<open>\<open>Array.prototype.join\<close>.\<close>

fun join :: "string \<Rightarrow> string list \<Rightarrow> string" where
  "join sep [] = []"
| "join sep [x] = x"
| "join sep (x # y # zs) = x @ sep @ join sep (y # zs)"

definition wordList :: "Word list \<Rightarrow> string" where
  "wordList selectedWords = join '', '' (map word selectedWords)"

definition reviewPrompt :: "string \<Rightarrow> string" where
  "reviewPrompt wl =
     ''Create a dialogue scenario between a virtual assistant named '' @
     [CHR 0x22, CHR 0xE5, CHR 0xB0, CHR 0x8F, CHR 0xE9, CHR 0x80, CHR 0x9A, CHR 0x22] @
     '' (Xiao Tong) and the user. '' @ [CHR 0x0A] @
     ''      The scenario should be a specific situation (e.g., at a restaurant, airport, or office).'' @
     [CHR 0x0A] @ ''      The user'' @ [CHR 0x27] @
     ''s lines MUST contain blanks for these words: '' @ wl @ ''.'' @ [CHR 0x0A] @
     ''      Format as JSON object with keys: '' @ [CHR 0x0A] @
     ''      - scenario: string (description of the scene)'' @ [CHR 0x0A] @
     ''      - dialogue: array of { speaker: '' @ [CHR 0x22] @ ''Xiao Tong'' @ [CHR 0x22] @
     '' | '' @ [CHR 0x22] @ ''User'' @ [CHR 0x22] @
     '', text: string, pinyin?: string, translation?: string, blankWord?: string, hintImagePrompt?: string }'' @
     [CHR 0x0A] @ ''      '' @ [CHR 0x0A] @ ''      For User lines with blanks, use '' @
     [CHR 0x22] @ ''____'' @ [CHR 0x22] @ '' and specify the '' @ [CHR 0x27] @ ''blankWord'' @
     [CHR 0x27] @ ''. '' @ [CHR 0x0A] @ ''      Also provide a '' @ [CHR 0x27] @
     ''hintImagePrompt'' @ [CHR 0x27] @ '' for each blank word to help the user remember it.''"

text \<open>
  \<open>for (const line of data.dialogue)\<close>: an image is asked for only when the line has both
  a blank word and a hint prompt.
\<close>

fun hintImages :: "(nat \<Rightarrow> string \<Rightarrow> image_reply) \<Rightarrow> nat \<Rightarrow> DialogueLine list \<Rightarrow> DialogueLine list" where
  "hintImages img k [] = []"
| "hintImages img k (dl # ls) =
     (if truthy (blankWord dl) \<and> truthy (hintImagePrompt dl)
      then dl\<lparr>hintImageUrl := tryImage (img k (textOf (hintImagePrompt dl))) (hintImageUrl dl)\<rparr>
      else dl)
       # hintImages img (k + 1) ls"

text \<open>
  When the parsed object has no \<open>dialogue\<close> (as the default \<open>{}\<close> has none), the loop
  throws a TypeError, which nothing in the service catches.
\<close>

definition getReviewDialogue ::
  "(string \<Rightarrow> ReviewJson reply) \<Rightarrow> (nat \<Rightarrow> string \<Rightarrow> image_reply) \<Rightarrow> Word list \<Rightarrow> error + ReviewData" where
  "getReviewDialogue gen img selectedWords =
     (case gen (reviewPrompt (wordList selectedWords)) of
        Rejected \<Rightarrow> Inl BackendError
      | NoText \<Rightarrow> Inl TypeError
      | Malformed \<Rightarrow> Inl SyntaxError
      | Parsed data \<Rightarrow>
          (case json_dialogue data of
             None \<Rightarrow> Inl TypeError
           | Some ls \<Rightarrow> Inr \<lparr>scenario = json_scenario data, dialogue = hintImages img 0 ls\<rparr>))"

text \<open>
  \<open>response.candidates?.[0]?.content?.parts?.[0]?.inlineData?.data\<close>: every step is
  optional, so only a rejected call throws.
\<close>

definition generateSpeech :: "(string \<Rightarrow> image_reply) \<Rightarrow> string \<Rightarrow> error + string option" where
  "generateSpeech gen t =
     (case gen (''Say clearly: '' @ t) of
        ImgRejected \<Rightarrow> Inl BackendError
      | ImgResponse cands \<Rightarrow>
          (case cands of
             Some (p # _) # _ \<Rightarrow> Inr p
           | _ \<Rightarrow> Inr None))"

text \<open>
  The contents of a chat request: the history with every role other than \<open>user\<close> sent as
  \<open>model\<close>, then the new input.
\<close>

definition chatContents :: "ChatTurn list \<Rightarrow> string \<Rightarrow> (string \<times> string) list" where
  "chatContents history userInput =
     map (\<lambda>h. (if role h = ''user'' then ''user'' else ''model'', turn_text h)) history
       @ [(''user'', userInput)]"

definition getDialogueResponse ::
  "((string \<times> string) list \<Rightarrow> text_reply) \<Rightarrow> ChatTurn list \<Rightarrow> string \<Rightarrow> error + string option" where
  "getDialogueResponse gen history userInput =
     (case gen (chatContents history userInput) of
        TextRejected \<Rightarrow> Inl BackendError
      | TextResponse t \<Rightarrow> Inr t)"

definition analyzePrompt :: string where
  "analyzePrompt = ''Identify any Chinese text in this image. Provide the Chinese characters, Pinyin, and English translation. Also explain the context (e.g., street sign, menu).''"

definition analyzeImage ::
  "(string option \<Rightarrow> string \<Rightarrow> text_reply) \<Rightarrow> string option \<Rightarrow> error + string option" where
  "analyzeImage gen base64Image =
     (case gen base64Image analyzePrompt of
        TextRejected \<Rightarrow> Inl BackendError
      | TextResponse t \<Rightarrow> Inr t)"

section \<open>The handlers of \<open>App\<close>\<close>

text \<open>
  An asynchronous handler is two functions, cut at its \<open>await\<close>. The first runs up to the
  call and gives the new state and the service call it starts, if any. The second runs
  when the call settles, on the state of that moment (every \<open>set\<close> of a hook acts on the
  current state): it gives the new state and the error that leaves the handler, if any.
  \<open>console.error\<close> is not modelled.

  A handler is a closure of one render of \<open>App\<close>: what it reads of the hooks is what that
  render saw, which need not be the current state (see the transition system below). A
  handler that reads hooks takes the state of its render, \<open>r\<close>, beside the current state
  \<open>s\<close> that its \<open>set\<close> calls act on. The vocabulary is the exception: its entries are
  objects that \<open>toggleWordSelection\<close> changes in place and that every copy of the array
  shares, so a handler that reads the selection flags at the time of the click reads the
  current ones.
\<close>

datatype call =
    Call_getVocabularyRecommendations string string
  | Call_getEtymology string
  | Call_getReviewDialogue "Word list"
  | Call_generateSpeech string
  | Call_getDialogueResponse "ChatTurn list" string
  | Call_analyzeImage "string option"

definition fetchRecommendations_begin :: "AppState \<Rightarrow> AppState \<Rightarrow> AppState \<times> call option" where
  "fetchRecommendations_begin r s =
     (s\<lparr>loading := True\<rparr>, Some (Call_getVocabularyRecommendations (nativeLang r) (level r)))"

definition fetchRecommendations_resume :: "error + Word list \<Rightarrow> AppState \<Rightarrow> AppState \<times> error option" where
  "fetchRecommendations_resume r s =
     ((case r of Inr ws \<Rightarrow> s\<lparr>recommendedWords := ws\<rparr> | Inl e \<Rightarrow> s)\<lparr>loading := False\<rparr>, None)"

definition fetchEtymology_begin :: "string \<Rightarrow> AppState \<Rightarrow> AppState \<times> call option" where
  "fetchEtymology_begin w s = (s\<lparr>loading := True\<rparr>, Some (Call_getEtymology w))"

definition fetchEtymology_resume :: "string \<Rightarrow> error + Etymology \<Rightarrow> AppState \<Rightarrow> AppState \<times> error option" where
  "fetchEtymology_resume w r s =
     ((case r of
         Inr data \<Rightarrow> s\<lparr>currentEtymology := Some (w, data), activePage := P_etymology\<rparr>
       | Inl e \<Rightarrow> s)\<lparr>loading := False\<rparr>, None)"

definition startTargetedReview_begin :: "AppState \<Rightarrow> AppState \<times> call option" where
  "startTargetedReview_begin s =
     (let selected = filter selected_flag (vocabulary s) in
      if length selected = 0 then (s, None)
      else (s\<lparr>loading := True\<rparr>, Some (Call_getReviewDialogue selected)))"

definition startTargetedReview_resume :: "error + ReviewData \<Rightarrow> AppState \<Rightarrow> AppState \<times> error option" where
  "startTargetedReview_resume r s =
     ((case r of
         Inr data \<Rightarrow>
           s\<lparr>reviewData := Some data, reviewAnswers := Map.empty, reviewStep := 0,
             activePage := P_dialogue\<rparr>
       | Inl e \<Rightarrow> s)\<lparr>loading := False\<rparr>, None)"

text \<open>
  \<open>playTTS\<close> touches no hook: when the call gives audio data it plays it, which is
  outside the state; \<open>playTTS_audio\<close> is the url it plays.
\<close>

definition playTTS_begin :: "string \<Rightarrow> AppState \<Rightarrow> AppState \<times> call option" where
  "playTTS_begin t s = (s, Some (Call_generateSpeech t))"

definition playTTS_resume :: "error + string option \<Rightarrow> AppState \<Rightarrow> AppState \<times> error option" where
  "playTTS_resume r s = (s, None)"

definition playTTS_audio :: "error + string option \<Rightarrow> string option" where
  "playTTS_audio r =
     (case r of
        Inr base64 \<Rightarrow> if truthy base64 then Some (''data:audio/mp3;base64,'' @ textOf base64) else None
      | Inl e \<Rightarrow> None)"

text \<open>
  The \<open>onKeyDown\<close> of the free-chat input. The service is called with the
  \<open>chatHistory\<close> of the render, which does not have the user's new turn. There is no
  \<open>try\<close> around the call.
\<close>

definition chatOnKeyDown_begin :: "AppState \<Rightarrow> string \<Rightarrow> string \<Rightarrow> AppState \<Rightarrow> AppState \<times> call option" where
  "chatOnKeyDown_begin r key val s =
     (if key = ''Enter'' \<and> val \<noteq> [] then
        (s\<lparr>chatHistory := chatHistory s @ [\<lparr>role = ''user'', turn_text = val\<rparr>]\<rparr>,
         Some (Call_getDialogueResponse (chatHistory r) val))
      else (s, None))"

definition chatOnKeyDown_resume :: "error + string option \<Rightarrow> AppState \<Rightarrow> AppState \<times> error option" where
  "chatOnKeyDown_resume r s =
     (case r of
        Inr response \<Rightarrow>
          (s\<lparr>chatHistory := chatHistory s @ [\<lparr>role = ''ai'', turn_text = textOf response\<rparr>]\<rparr>, None)
      | Inl e \<Rightarrow> (s, Some e))"

section \<open>The review exercise (dialogue page of \<open>renderPage\<close>)\<close>

text \<open>
  The lines on display are \<open>reviewData.dialogue.slice(0, reviewStep + 1)\<close>; a line shows
  answer buttons when \<open>line.speaker === 'User' && line.blankWord\<close>, one button for each
  selected word of the vocabulary.
\<close>

definition visibleLines :: "ReviewData \<Rightarrow> nat \<Rightarrow> DialogueLine list" where
  "visibleLines d st = take (st + 1) (dialogue d)"

definition isExercise :: "DialogueLine \<Rightarrow> bool" where
  "isExercise dl = (speaker dl = ''User'' \<and> truthy (blankWord dl))"

text \<open>
  The \<open>onClick\<close> of the answer button of word \<open>w\<close> on line \<open>i\<close>. The closure holds the
  line \<open>dl\<close>, the review data \<open>d\<close> and the step index \<open>st\<close> of the render the button
  belongs to: the test \<open>reviewStep < reviewData.dialogue.length - 1\<close> is on these, while
  \<open>setReviewAnswers(prev => ...)\<close> and \<open>setReviewStep(prev => prev + 1)\<close> act on the
  current state \<open>s\<close>. The comparison is on JavaScript numbers, so \<open>length - 1\<close> is \<open>-1\<close>
  for an empty dialogue.
\<close>

definition answerOnClick ::
  "nat \<Rightarrow> Word \<Rightarrow> DialogueLine \<Rightarrow> ReviewData \<Rightarrow> nat \<Rightarrow> AppState \<Rightarrow> AppState" where
  "answerOnClick i w dl d st s =
     (let s1 = s\<lparr>reviewAnswers := (reviewAnswers s)(i \<mapsto> word w)\<rparr> in
      if blankWord dl = Some (word w) then
        (if int st < int (length (dialogue d)) - 1
         then s1\<lparr>reviewStep := reviewStep s1 + 1\<rparr> else s1)
      else s1)"

text \<open>
  A click on button \<open>idx\<close> of line \<open>i\<close> of the page rendered from \<open>r\<close>, in the current
  state \<open>s\<close>: the handler runs when that button is on that page, and nothing happens
  otherwise.
\<close>

definition clickAnswer :: "nat \<Rightarrow> nat \<Rightarrow> AppState \<Rightarrow> AppState \<Rightarrow> AppState" where
  "clickAnswer i idx r s =
     (case reviewData r of
        None \<Rightarrow> s
      | Some d \<Rightarrow>
          (let sel = filter selected_flag (vocabulary r) in
           if activePage r = P_dialogue \<and> i < length (visibleLines d (reviewStep r))
              \<and> isExercise (dialogue d ! i) \<and> idx < length sel
           then answerOnClick i (sel ! idx) (dialogue d ! i) d (reviewStep r) s
           else s))"

section \<open>The other handlers of the pages\<close>

text \<open>\<open>String.prototype.split\<close> on one character.\<close>

fun split :: "char \<Rightarrow> string \<Rightarrow> string list" where
  "split c [] = [[]]"
| "split c (x # xs) =
     (if x = c then [] # split c xs
      else (case split c xs of [] \<Rightarrow> [[x]] | y # ys \<Rightarrow> (x # y) # ys))"

text \<open>\<open>xs[1]\<close>, undefined when the array is shorter.\<close>

definition second :: "'a list \<Rightarrow> 'a option" where
  "second xs = (case xs of _ # y # _ \<Rightarrow> Some y | _ \<Rightarrow> None)"

text \<open>
  \<open>reader.onloadend\<close> of \<open>handleImageUpload\<close>, on the data url the reader has read
  (a read that fails, with no result, is not modelled).
\<close>

definition handleImageUpload_begin :: "string \<Rightarrow> AppState \<Rightarrow> AppState \<times> call option" where
  "handleImageUpload_begin dataUrl s =
     (let base64 = second (split CHR '','' dataUrl) in
      (s\<lparr>capturedImage := Some dataUrl, loading := True\<rparr>, Some (Call_analyzeImage base64)))"

definition handleImageUpload_resume :: "error + string option \<Rightarrow> AppState \<Rightarrow> AppState \<times> error option" where
  "handleImageUpload_resume r s =
     ((case r of Inr res \<Rightarrow> s\<lparr>imageResult := res\<rparr> | Inl e \<Rightarrow> s)\<lparr>loading := False\<rparr>, None)"

text \<open>
  \<open>toggleWordSelection\<close>; it is only ever called with the index of an entry on the
  page, and an index outside the list (a TypeError in the source) is left as no change.
\<close>

definition toggleWordSelection :: "nat \<Rightarrow> AppState \<Rightarrow> AppState" where
  "toggleWordSelection index s =
     (if index < length (vocabulary s) then
        s\<lparr>vocabulary := (vocabulary s)
            [index := (vocabulary s ! index)\<lparr>isSelected := Some (\<not> selected_flag (vocabulary s ! index))\<rparr>]\<rparr>
      else s)"

definition sampleUrl :: "nat \<Rightarrow> string" where
  "sampleUrl i =
     (if i = 0
      then ''https://images.unsplash.com/photo-1576487190184-4860cc514ce1?q=80&w=300&auto=format&fit=crop''
      else ''https://images.unsplash.com/photo-1555396273-367ea4eb4db5?q=80&w=300&auto=format&fit=crop'')"

definition sampleResult :: "nat \<Rightarrow> string" where
  "sampleResult i =
     (if i = 0 then
        [CHR 0xE8, CHR 0xB7, CHR 0xAF, CHR 0xE7, CHR 0x89, CHR 0x8C, CHR 0xE8, CHR 0xAF, CHR 0x86,
         CHR 0xE5, CHR 0x88, CHR 0xAB, CHR 0xE7, CHR 0xBB, CHR 0x93, CHR 0xE6, CHR 0x9E, CHR 0x9C] @
        '':'' @ [CHR 0x0A, CHR 0xE7, CHR 0xA6, CHR 0x81, CHR 0xE6, CHR 0xAD, CHR 0xA2, CHR 0xE5,
         CHR 0x81, CHR 0x9C, CHR 0xE8, CHR 0xBD, CHR 0xA6] @ '' (J'' @ [CHR 0xC3, CHR 0xAC] @
        ''n zh'' @ [CHR 0xC7, CHR 0x90] @ '' t'' @ [CHR 0xC3, CHR 0xAD] @ ''ng ch'' @
        [CHR 0xC4, CHR 0x93] @ '')'' @ [CHR 0x0A] @ ''No Parking''
      else
        [CHR 0xE8, CHR 0x8F, CHR 0x9C, CHR 0xE5, CHR 0x8D, CHR 0x95, CHR 0xE8, CHR 0xAF, CHR 0x86,
         CHR 0xE5, CHR 0x88, CHR 0xAB, CHR 0xE7, CHR 0xBB, CHR 0x93, CHR 0xE6, CHR 0x9E, CHR 0x9C] @
        '':'' @ [CHR 0x0A, CHR 0xE5, CHR 0xAE, CHR 0xAB, CHR 0xE4, CHR 0xBF, CHR 0x9D, CHR 0xE9,
         CHR 0xB8, CHR 0xA1, CHR 0xE4, CHR 0xB8, CHR 0x81] @ '' (G'' @ [CHR 0xC5, CHR 0x8D] @
        ''ng b'' @ [CHR 0xC7, CHR 0x8E] @ ''o j'' @ [CHR 0xC4, CHR 0xAB] @ '' d'' @
        [CHR 0xC4, CHR 0xAB] @ ''ng)'' @ [CHR 0x0A] @ ''Kung Pao Chicken'')"

definition sampleOnClick :: "nat \<Rightarrow> AppState \<Rightarrow> AppState" where
  "sampleOnClick i s = s\<lparr>capturedImage := Some (sampleUrl i), imageResult := Some (sampleResult i)\<rparr>"

definition clearImageOnClick :: "AppState \<Rightarrow> AppState" where
  "clearImageOnClick s = s\<lparr>capturedImage := None, imageResult := None\<rparr>"

text \<open>The link under the completion badge: \<open>setReviewData(null)\<close>.\<close>

definition exitReviewOnClick :: "AppState \<Rightarrow> AppState" where
  "exitReviewOnClick s = s\<lparr>reviewData := None\<rparr>"

section \<open>The application as a transition system\<close>

text \<open>
  Beside the state of the hooks, the system keeps what is under way: the service calls
  that have not settled, each with the arguments its continuation holds, and the number
  of files being read. It also keeps what leaves the component: the errors no handler
  caught (unhandled rejections) and the audio played.

  The page is rendered inside \<open><AnimatePresence mode="wait">\<close>, in a \<open>motion.div\<close> whose key
  is \<open>activePage\<close> and whose exit lasts 0.2 s. That library is outside the repository;
  what is taken of it here is that, when the key changes, the page that is left stays
  mounted as its last render made it, with the handlers of that render, until its exit
  is over; the new page is mounted only then, and is rendered again at every change of
  the state from then on; and a page whose key comes back during its exit is rendered
  anew. \<open>exiting\<close> is the state of the last render of a page that is leaving. The header
  and the navigation bar are outside \<open>AnimatePresence\<close>.

  \<open>renderPage\<close> is called in the render of \<open>App\<close>, and nothing catches what it throws:
  when a render throws, React unmounts the application, and the system is \<open>crashed\<close>.
\<close>

record System =
  app :: AppState
  exiting :: "AppState option"
  crashed :: bool
  inflight :: "call list"
  reading :: nat
  unhandled :: "error list"
  played :: "string list"

text \<open>How a service call settles: the value or the error of its promise.\<close>

datatype settled =
    Settled_words "error + Word list"
  | Settled_etymology "error + Etymology"
  | Settled_review "error + ReviewData"
  | Settled_text "error + string option"

datatype event =
    Navigate PageType
  | SelectNativeLang string
  | SelectLevel string
  | ClickRefresh
  | ClickRecommended nat
  | ToggleWord nat
  | ClickStartReview
  | ClickAnswer nat nat
  | ClickExitReview
  | ClickPlayTTS nat
  | ChatKeyDown string string
  | ChooseFile
  | FileLoaded string
  | ClickSample nat
  | ClickClearImage
  | ExitDone
  | Settle nat settled

text \<open>The state that the page on the screen was rendered from.\<close>

definition rendered :: "System \<Rightarrow> AppState" where
  "rendered sys = (case exiting sys of None \<Rightarrow> app sys | Some snap \<Rightarrow> snap)"

text \<open>
  The etymology page calls \<open>currentEtymology.data.components.map\<close> whenever
  \<open>currentEtymology\<close> is set: it throws a TypeError when the etymology has no components.
  No other page reads a property that the model lets be absent.
\<close>

definition renderThrows :: "AppState \<Rightarrow> bool" where
  "renderThrows s =
     (activePage s = P_etymology \<and>
      (case currentEtymology s of None \<Rightarrow> False | Some (w, data) \<Rightarrow> components data = None))"

definition withApp :: "(AppState \<Rightarrow> AppState) \<Rightarrow> System \<Rightarrow> System" where
  "withApp f sys = sys\<lparr>app := f (app sys)\<rparr>"

definition started :: "AppState \<times> call option \<Rightarrow> System \<Rightarrow> System" where
  "started r sys =
     sys\<lparr>app := fst r,
         inflight := inflight sys @ (case snd r of None \<Rightarrow> [] | Some c \<Rightarrow> [c])\<rparr>"

definition finished :: "nat \<Rightarrow> AppState \<times> error option \<Rightarrow> System \<Rightarrow> System" where
  "finished k r sys =
     sys\<lparr>app := fst r,
         inflight := take k (inflight sys) @ drop (k + 1) (inflight sys),
         unhandled := unhandled sys @ (case snd r of None \<Rightarrow> [] | Some e \<Rightarrow> [e])\<rparr>"

text \<open>
  The render that follows an event which may have set \<open>activePage\<close> or
  \<open>currentEtymology\<close>, where \<open>old\<close> is the state of the render before: the application
  crashes when the render throws; otherwise, when the page has changed, the page of
  \<open>old\<close> starts to leave, unless a page is leaving already (it goes on leaving, or is
  rendered anew when it is the page that is now active). The events that set neither
  hook change neither the page nor whether the render throws.
\<close>

definition rerender :: "AppState \<Rightarrow> System \<Rightarrow> System" where
  "rerender old sys =
     (if renderThrows (app sys) then sys\<lparr>crashed := True\<rparr>
      else if activePage (app sys) = activePage old then sys
      else (case exiting sys of
              None \<Rightarrow> sys\<lparr>exiting := Some old\<rparr>
            | Some snap \<Rightarrow>
                if activePage snap = activePage (app sys) then sys\<lparr>exiting := None\<rparr> else sys))"

text \<open>
  The \<open>useEffect\<close> on \<open>activePage\<close>: it runs after the first render and after every render
  in which \<open>activePage\<close> has changed, with the \<open>fetchRecommendations\<close> of that render.
\<close>

definition pageEffect :: "System \<Rightarrow> System" where
  "pageEffect sys =
     (if activePage (app sys) = P_recommendation \<and> length (recommendedWords (app sys)) = 0
      then started (fetchRecommendations_begin (app sys) (app sys)) sys
      else sys)"

definition mounted :: System where
  "mounted =
     pageEffect \<lparr>app = initialState, exiting = None, crashed = False, inflight = [],
                 reading = 0, unhandled = [], played = []\<rparr>"

text \<open>
  Call \<open>k\<close> of those under way settles, the continuation of its handler runs, and \<open>App\<close>
  is rendered. The two continuations that set \<open>activePage\<close> set it to a page other than
  the recommendation page, on which the effect does nothing.
\<close>

definition settle :: "nat \<Rightarrow> settled \<Rightarrow> System \<Rightarrow> System" where
  "settle k r sys =
     (if k < length (inflight sys) then
        (case (inflight sys ! k, r) of
           (Call_getVocabularyRecommendations _ _, Settled_words x) \<Rightarrow>
             rerender (app sys) (finished k (fetchRecommendations_resume x (app sys)) sys)
         | (Call_getEtymology w, Settled_etymology x) \<Rightarrow>
             rerender (app sys) (finished k (fetchEtymology_resume w x (app sys)) sys)
         | (Call_getReviewDialogue _, Settled_review x) \<Rightarrow>
             rerender (app sys) (finished k (startTargetedReview_resume x (app sys)) sys)
         | (Call_generateSpeech _, Settled_text x) \<Rightarrow>
             rerender (app sys)
               ((finished k (playTTS_resume x (app sys)) sys)
                  \<lparr>played := played sys @ (case playTTS_audio x of None \<Rightarrow> [] | Some u \<Rightarrow> [u])\<rparr>)
         | (Call_getDialogueResponse _ _, Settled_text x) \<Rightarrow>
             rerender (app sys) (finished k (chatOnKeyDown_resume x (app sys)) sys)
         | (Call_analyzeImage _, Settled_text x) \<Rightarrow>
             rerender (app sys) (finished k (handleImageUpload_resume x (app sys)) sys)
         | _ \<Rightarrow> sys)
      else sys)"

text \<open>
  One event of a running application. An element of a page acts when it is on the
  screen: the page it belongs to is the one rendered there, from the state
  \<open>rendered sys\<close>, the element is rendered, and the button is not disabled. Its handler
  is the one of that render.
\<close>

fun handle :: "System \<Rightarrow> event \<Rightarrow> System" where
  "handle sys (Navigate p) =
     (if activePage (app sys) = p then sys
      else (let sys' = rerender (app sys) (withApp (\<lambda>s. s\<lparr>activePage := p\<rparr>) sys) in
            if crashed sys' then sys' else pageEffect sys'))"
| "handle sys (SelectNativeLang l) =
     (if l \<in> set [''English'', ''German'', ''French'', ''Japanese'']
      then withApp (\<lambda>s. s\<lparr>nativeLang := l\<rparr>) sys else sys)"
| "handle sys (SelectLevel l) =
     (if l \<in> set [''HSK 1'', ''HSK 2'', ''HSK 3'', ''HSK 4'']
      then withApp (\<lambda>s. s\<lparr>level := l\<rparr>) sys else sys)"
| "handle sys ClickRefresh =
     (if activePage (rendered sys) = P_recommendation
      then started (fetchRecommendations_begin (rendered sys) (app sys)) sys else sys)"
| "handle sys (ClickRecommended i) =
     (if activePage (rendered sys) = P_recommendation
         \<and> i < length (recommendedWords (rendered sys))
      then started (fetchEtymology_begin (word (recommendedWords (rendered sys) ! i)) (app sys)) sys
      else sys)"
| "handle sys (ToggleWord i) =
     (if activePage (rendered sys) = P_vocabulary \<and> i < length (vocabulary (rendered sys))
      then withApp (toggleWordSelection i) sys else sys)"
| "handle sys ClickStartReview =
     (if activePage (rendered sys) = P_vocabulary
         \<and> \<not> (loading (rendered sys)
               \<or> length (filter selected_flag (vocabulary (rendered sys))) = 0)
      then started (startTargetedReview_begin (app sys)) sys else sys)"
| "handle sys (ClickAnswer i idx) = withApp (clickAnswer i idx (rendered sys)) sys"
| "handle sys ClickExitReview =
     (case reviewData (rendered sys) of
        None \<Rightarrow> sys
      | Some d \<Rightarrow>
          if activePage (rendered sys) = P_dialogue
             \<and> int (reviewStep (rendered sys)) = int (length (dialogue d)) - 1
          then withApp exitReviewOnClick sys else sys)"
| "handle sys (ClickPlayTTS i) =
     (case reviewData (rendered sys) of
        None \<Rightarrow> sys
      | Some d \<Rightarrow>
          if activePage (rendered sys) = P_dialogue
             \<and> i < length (visibleLines d (reviewStep (rendered sys)))
             \<and> speaker (dialogue d ! i) = ''Xiao Tong''
          then started (playTTS_begin (line_text (dialogue d ! i)) (app sys)) sys else sys)"
| "handle sys (ChatKeyDown key val) =
     (if activePage (rendered sys) = P_dialogue \<and> reviewData (rendered sys) = None
      then started (chatOnKeyDown_begin (rendered sys) key val (app sys)) sys else sys)"
| "handle sys ChooseFile =
     (if activePage (rendered sys) = P_recognition then sys\<lparr>reading := reading sys + 1\<rparr>
      else sys)"
| "handle sys (FileLoaded dataUrl) =
     (if 0 < reading sys
      then started (handleImageUpload_begin dataUrl (app sys)) (sys\<lparr>reading := reading sys - 1\<rparr>)
      else sys)"
| "handle sys (ClickSample i) =
     (if activePage (rendered sys) = P_recognition \<and> i < 2
      then withApp (sampleOnClick i) sys else sys)"
| "handle sys ClickClearImage =
     (if activePage (rendered sys) = P_recognition \<and> truthy (imageResult (rendered sys))
      then withApp clearImageOnClick sys else sys)"
| "handle sys ExitDone = sys\<lparr>exiting := None\<rparr>"
| "handle sys (Settle k r) = settle k r sys"

text \<open>Once the application has crashed, nothing is on the screen and nothing is observed.\<close>

definition step :: "System \<Rightarrow> event \<Rightarrow> System" where
  "step sys e = (if crashed sys then sys else handle sys e)"

definition run :: "System \<Rightarrow> event list \<Rightarrow> System" where
  "run sys es = foldl step sys es"

section \<open>Example data\<close>

definition exWord :: "string \<Rightarrow> bool \<Rightarrow> Word" where
  "exWord w sel =
     \<lparr>word = w, pinyin = w, meaning = w, culturalNote = None, proficiency = 50,
      category = None, isFavorite = None, isSelected = Some sel\<rparr>"

definition exVocabulary :: "Word list" where
  "exVocabulary = [exWord ''A'' True, exWord ''B'' False, exWord ''C'' True]"

definition userLine :: "string \<Rightarrow> DialogueLine" where
  "userLine b =
     \<lparr>speaker = ''User'', line_text = ''I need ____ now'', line_pinyin = None,
      translation = None, blankWord = Some b, hintImagePrompt = Some (''a picture of '' @ b),
      hintImageUrl = None\<rparr>"

definition tutorLine :: "string \<Rightarrow> DialogueLine" where
  "tutorLine t =
     \<lparr>speaker = ''Xiao Tong'', line_text = t, line_pinyin = None,
      translation = None, blankWord = None, hintImagePrompt = None, hintImageUrl = None\<rparr>"

definition exReview :: ReviewData where
  "exReview = \<lparr>scenario = Some ''At the airport'', dialogue = [userLine ''A'', userLine ''C'']\<rparr>"

definition exReviewState :: "nat \<Rightarrow> AppState" where
  "exReviewState st =
     initialState\<lparr>activePage := P_dialogue, vocabulary := exVocabulary,
       reviewData := Some exReview, reviewStep := st\<rparr>"

definition exUnselectedState :: AppState where
  "exUnselectedState =
     initialState\<lparr>activePage := P_vocabulary, vocabulary := [exWord ''A'' False, exWord ''B'' False],
       reviewStep := 1, reviewAnswers := [0 \<mapsto> ''A'']\<rparr>"

definition exVocabularyState :: AppState where
  "exVocabularyState = initialState\<lparr>activePage := P_vocabulary, vocabulary := exVocabulary\<rparr>"

definition exBackendWords :: "real \<Rightarrow> string \<Rightarrow> Word list reply" where
  "exBackendWords prof prompt =
     Parsed [\<lparr>word = ''A'', pinyin = ''a'', meaning = ''first'', culturalNote = None,
              proficiency = prof, category = None, isFavorite = None, isSelected = None\<rparr>]"

definition exRecommended :: "Word list" where
  "exRecommended =
     [\<lparr>word = ''A'', pinyin = ''a'', meaning = ''first'', culturalNote = None,
       proficiency = 70, category = None, isFavorite = None, isSelected = None\<rparr>,
      \<lparr>word = ''B'', pinyin = ''b'', meaning = ''second'', culturalNote = Some ''note'',
       proficiency = 30, category = None, isFavorite = None, isSelected = None\<rparr>]"

definition exEtymology :: Etymology where
  "exEtymology =
     \<lparr>components = Some [\<lparr>comp_char = ''a1'', comp_meaning = ''roof'', imageUrl = None\<rparr>,
                         \<lparr>comp_char = ''a2'', comp_meaning = ''pig'', imageUrl = None\<rparr>],
      culturalContext = Some ''home''\<rparr>"

text \<open>An image backend whose first call is rejected and whose other calls give one image.\<close>

definition exImages :: "nat \<Rightarrow> string \<Rightarrow> image_reply" where
  "exImages k prompt = (if k = 0 then ImgRejected else ImgResponse [Some [None, Some ''QUJD'']])"

text \<open>A review on two words of the initial vocabulary, with a line of the tutor between.\<close>

definition exSeedReview :: ReviewData where
  "exSeedReview =
     \<lparr>scenario = Some ''At the airport'',
      dialogue = [userLine (word (initialVocabulary ! 0)), tutorLine ''Hao de'',
                  userLine (word (initialVocabulary ! 1))]\<rparr>"

text \<open>
  From the mounted application: the first fetch settles, the user goes to the vocabulary
  page and starts a review, and the review arrives and is on the screen.
\<close>

definition exStartEvents :: "event list" where
  "exStartEvents =
     [Settle 0 (Settled_words (Inr [])), Navigate P_vocabulary, ExitDone, ClickStartReview,
      Settle 0 (Settled_review (Inr exSeedReview)), ExitDone]"

text \<open>
  Then the user goes to another page and, while the dialogue page is leaving, clicks the
  right answer of its first line four times.
\<close>

definition exStaleClicks :: "event list" where
  "exStaleClicks =
     [Navigate P_vocabulary, ClickAnswer 0 0, ClickAnswer 0 0, ClickAnswer 0 0, ClickAnswer 0 0]"

text \<open>The first fetch settles, the user goes to the dialogue page and sends a chat line.\<close>

definition exChatEvents :: "event list" where
  "exChatEvents =
     [Settle 0 (Settled_words (Inr [])), Navigate P_dialogue, ExitDone,
      ChatKeyDown ''Enter'' ''ni hao'']"

text \<open>
  Two words are recommended, the user clicks the first, and the etymology fetch succeeds
  with the object of a response without text, which has no components.
\<close>

definition exEmptyEtymologyEvents :: "event list" where
  "exEmptyEtymologyEvents =
     [Settle 0 (Settled_words (Inr exRecommended)), ClickRecommended 0,
      Settle 0 (Settled_etymology (Inr \<lparr>components = None, culturalContext = None\<rparr>))]"

text \<open>
  The user presses refresh while the first fetch is under way, and the first fetch
  settles.
\<close>

definition exOverlapEvents :: "event list" where
  "exOverlapEvents = [ClickRefresh, Settle 0 (Settled_words (Inr []))]"

section \<open>Predicates of the claims\<close>

text \<open>
  The step index of an active review with a dialogue that is not empty is at most the
  index of the last line.
\<close>

definition reviewInv :: "AppState \<Rightarrow> bool" where
  "reviewInv s =
     (case reviewData s of
        None \<Rightarrow> True
      | Some d \<Rightarrow> dialogue d \<noteq> [] \<longrightarrow> reviewStep s \<le> length (dialogue d) - 1)"

text \<open>A dependent image call fails: the body of its \<open>try\<close> block throws.\<close>

definition imageFailed :: "image_reply \<Rightarrow> bool" where
  "imageFailed r = (case imageAttempt r None of Inl e \<Rightarrow> True | Inr u \<Rightarrow> False)"

section \<open>Basic facts\<close>

lemmas ex_defs = exReviewState_def exReview_def exVocabulary_def exWord_def userLine_def
  tutorLine_def initialState_def visibleLines_def isExercise_def truthy_def selected_flag_def

lemmas sys_defs = mounted_def pageEffect_def started_def finished_def withApp_def settle_def
  step_def rendered_def rerender_def renderThrows_def
  fetchRecommendations_begin_def fetchRecommendations_resume_def
  startTargetedReview_begin_def startTargetedReview_resume_def
  initialState_def initialVocabulary_def seedWord_def selected_flag_def

lemma app_withApp [simp]: "app (withApp f sys) = f (app sys)"
  by (simp add: withApp_def)

lemma app_started [simp]: "app (started r sys) = fst r"
  by (simp add: started_def)

lemma app_finished [simp]: "app (finished k r sys) = fst r"
  by (simp add: finished_def)

lemma app_rerender [simp]: "app (rerender old sys) = app sys"
  by (simp add: rerender_def split: option.splits)

lemma inflight_withApp [simp]: "inflight (withApp f sys) = inflight sys"
  by (simp add: withApp_def)

lemma run_Nil [simp]: "run sys [] = sys"
  by (simp add: run_def)

lemma run_Cons [simp]: "run sys (e # es) = run (step sys e) es"
  by (simp add: run_def)

lemma run_append: "run sys (es @ es') = run (run sys es) es'"
  by (simp add: run_def)

section \<open>Answer submission on a review exercise line\<close>

lemma clickAnswer_rendered:
  assumes "reviewData r = Some d" and "activePage r = P_dialogue"
    and "i < length (visibleLines d (reviewStep r))" and "isExercise (dialogue d ! i)"
    and "idx < length (filter selected_flag (vocabulary r))"
  shows "clickAnswer i idx r s =
           answerOnClick i (filter selected_flag (vocabulary r) ! idx) (dialogue d ! i) d
             (reviewStep r) s"
  using assms by (simp add: clickAnswer_def Let_def)

text \<open>
  C1, as the claim states it, fails on the last line. The review of the example has two
  exercise lines and stands on the second, whose blank is the word of the second answer
  button; a click on that button, on the page as the current state renders it, leaves
  the step index where it is.
\<close>

theorem answer_at_last_line_counterexample:
  "reviewData (exReviewState 1) = Some exReview
   \<and> isExercise (dialogue exReview ! 1)
   \<and> blankWord (dialogue exReview ! 1) = Some (word (filter selected_flag exVocabulary ! 1))
   \<and> reviewStep (clickAnswer 1 1 (exReviewState 1) (exReviewState 1)) = reviewStep (exReviewState 1)"
  by (simp add: ex_defs clickAnswer_def answerOnClick_def Let_def)

text \<open>
  C1, amended. In an active review whose current line, the line at the step index, is an
  exercise line, a click on an answer button of the current line (button \<open>idx\<close> of the
  selected words), on the page as the current state renders it, records the word as the
  answer of that line, whatever the word is. The step index goes up by exactly one when
  the word is the blank word of the current line and the step index is not yet that of
  the last line of the dialogue; in every other case it keeps its value. The review data
  are unchanged. Nothing is said here of the buttons of the earlier lines, nor of a
  page that is leaving.
\<close>

theorem answer_submission_step:
  assumes "reviewData s = Some d" and "activePage s = P_dialogue"
    and "reviewStep s < length (dialogue d)" and "isExercise (dialogue d ! reviewStep s)"
    and "idx < length (filter selected_flag (vocabulary s))"
  shows "let w = filter selected_flag (vocabulary s) ! idx;
             s' = clickAnswer (reviewStep s) idx s s in
           reviewAnswers s' = (reviewAnswers s)(reviewStep s \<mapsto> word w) \<and>
           reviewStep s' =
             (if blankWord (dialogue d ! reviewStep s) = Some (word w)
                 \<and> reviewStep s + 1 < length (dialogue d)
              then reviewStep s + 1 else reviewStep s) \<and>
           reviewData s' = reviewData s"
proof -
  have lt: "(int (reviewStep s) < int (length (dialogue d)) - 1) = (reviewStep s + 1 < length (dialogue d))"
    by linarith
  have vis: "reviewStep s < length (visibleLines d (reviewStep s))"
    using assms(3) by (simp add: visibleLines_def)
  show ?thesis
    unfolding clickAnswer_rendered [OF assms(1,2) vis assms(4,5)] Let_def answerOnClick_def lt
    by simp
qed

text \<open>
  On the first line of the example review, which is its current line: the right word
  moves the step index from 0 to 1, the other selected word leaves it at 0, and both are
  recorded.
\<close>

theorem answer_submission_step_witness:
  "reviewStep (exReviewState 0) = 0
   \<and> reviewStep (clickAnswer 0 0 (exReviewState 0) (exReviewState 0)) = 1
   \<and> reviewAnswers (clickAnswer 0 0 (exReviewState 0) (exReviewState 0)) 0 = Some ''A''
   \<and> reviewStep (clickAnswer 0 1 (exReviewState 0) (exReviewState 0)) = 0
   \<and> reviewAnswers (clickAnswer 0 1 (exReviewState 0) (exReviewState 0)) 0 = Some ''C''"
  using answer_submission_step [of "exReviewState 0" exReview 0]
    answer_submission_step [of "exReviewState 0" exReview 1]
  by (simp add: ex_defs Let_def)

section \<open>Starting a targeted review\<close>

text \<open>
  C5. When no word of the vocabulary has its selection flag true, \<open>startTargetedReview\<close>
  starts no service call and returns the state it was given; a system in that state is
  left as it is, with the same calls under way, also by a click on the review button.
\<close>

theorem startTargetedReview_nothing_selected:
  assumes "\<forall>w \<in> set (vocabulary s). isSelected w \<noteq> Some True"
  shows "startTargetedReview_begin s = (s, None)
         \<and> (app sys = s \<longrightarrow> started (startTargetedReview_begin s) sys = sys
                              \<and> step sys ClickStartReview = sys)"
proof -
  have "filter selected_flag (vocabulary s) = []"
    using assms by (simp add: filter_empty_conv selected_flag_def)
  then show ?thesis
    by (simp add: startTargetedReview_begin_def started_def step_def)
qed

theorem startTargetedReview_nothing_selected_witness:
  "map isSelected (vocabulary exUnselectedState) = [Some False, Some False]
   \<and> startTargetedReview_begin exUnselectedState = (exUnselectedState, None)"
  using startTargetedReview_nothing_selected [of exUnselectedState]
  by (simp add: exUnselectedState_def exWord_def)

text \<open>
  C6. The call that \<open>startTargetedReview\<close> starts is \<open>getReviewDialogue\<close> on the words of
  the vocabulary whose selection flag is true, in the order of the vocabulary, and there
  is no call when there is none. The service reaches the backend with the prompt built
  from the joined words of that list and with nothing else of the vocabulary.
\<close>

theorem review_call_selected_words:
  "snd (startTargetedReview_begin s) =
     (if \<forall>w \<in> set (vocabulary s). isSelected w \<noteq> Some True then None
      else Some (Call_getReviewDialogue (filter (\<lambda>w. isSelected w = Some True) (vocabulary s))))
   \<and> set (filter (\<lambda>w. isSelected w = Some True) (vocabulary s))
        = {w \<in> set (vocabulary s). isSelected w = Some True}
   \<and> subseq (filter (\<lambda>w. isSelected w = Some True) (vocabulary s)) (vocabulary s)
   \<and> (gen (reviewPrompt (join '', '' (map word ws))) = gen' (reviewPrompt (join '', '' (map word ws)))
        \<longrightarrow> getReviewDialogue gen img ws = getReviewDialogue gen' img ws)"
proof -
  have sel: "selected_flag = (\<lambda>w. isSelected w = Some True)"
    by (rule ext) (simp add: selected_flag_def)
  have "snd (startTargetedReview_begin s) =
     (if \<forall>w \<in> set (vocabulary s). isSelected w \<noteq> Some True then None
      else Some (Call_getReviewDialogue (filter (\<lambda>w. isSelected w = Some True) (vocabulary s))))"
    by (simp add: startTargetedReview_begin_def sel Let_def filter_empty_conv)
  moreover have "gen (reviewPrompt (join '', '' (map word ws))) = gen' (reviewPrompt (join '', '' (map word ws)))
        \<longrightarrow> getReviewDialogue gen img ws = getReviewDialogue gen' img ws"
    by (simp add: getReviewDialogue_def wordList_def)
  ultimately show ?thesis by simp
qed

text \<open>The vocabulary A (selected), B (not selected), C (selected) sends A and C.\<close>

theorem review_call_selected_words_witness:
  "snd (startTargetedReview_begin exVocabularyState)
     = Some (Call_getReviewDialogue [exWord ''A'' True, exWord ''C'' True])
   \<and> wordList [exWord ''A'' True, exWord ''C'' True] = ''A, C''"
  using review_call_selected_words [of exVocabularyState "\<lambda>_. Rejected" "[]" "\<lambda>_. Rejected" "\<lambda>_ _. ImgRejected"]
  by (simp add: exVocabularyState_def exVocabulary_def exWord_def wordList_def)

text \<open>
  C10. When the call of \<open>startTargetedReview\<close> succeeds, the state after the handler has
  step index 0, no recorded answer, the dialogue page as the active page and the new
  review data, whatever the state before held; no error leaves the handler.
\<close>

theorem review_starts_reset:
  "reviewStep (fst (startTargetedReview_resume (Inr data) s)) = 0
   \<and> reviewAnswers (fst (startTargetedReview_resume (Inr data) s)) = Map.empty
   \<and> activePage (fst (startTargetedReview_resume (Inr data) s)) = P_dialogue
   \<and> reviewData (fst (startTargetedReview_resume (Inr data) s)) = Some data
   \<and> snd (startTargetedReview_resume (Inr data) s) = None"
  by (simp add: startTargetedReview_resume_def)

theorem review_starts_reset_witness:
  "reviewStep exUnselectedState = 1 \<and> reviewAnswers exUnselectedState 0 = Some ''A''
   \<and> reviewStep (fst (startTargetedReview_resume (Inr exReview) exUnselectedState)) = 0
   \<and> reviewAnswers (fst (startTargetedReview_resume (Inr exReview) exUnselectedState)) 0 = None
   \<and> activePage (fst (startTargetedReview_resume (Inr exReview) exUnselectedState)) = P_dialogue"
  using review_starts_reset [of exReview exUnselectedState]
  by (simp add: exUnselectedState_def)

section \<open>The recommendation fetch\<close>

text \<open>
  C9, as the claim states it, fails: the service returns what the backend's response
  parses to, and a response whose item has proficiency 150 comes back with it.
\<close>

theorem proficiency_out_of_range_counterexample:
  "getVocabularyRecommendations (exBackendWords 150) ''English'' ''HSK 3''
     = Inr [\<lparr>word = ''A'', pinyin = ''a'', meaning = ''first'', culturalNote = None,
              proficiency = 150, category = None, isFavorite = None, isSelected = None\<rparr>]
   \<and> \<not> proficiency \<lparr>word = ''A'', pinyin = ''a'', meaning = ''first'', culturalNote = None,
              proficiency = 150, category = None, isFavorite = None, isSelected = None\<rparr> \<le> 100"
  by (simp add: getVocabularyRecommendations_def exBackendWords_def)

text \<open>
  C9, amended. A list returned by \<open>getVocabularyRecommendations\<close> is the list the
  backend's response parses to, or the empty list when the response has no text; it is
  not checked. So every item of it has a proficiency in the range from 0 to 100 whenever
  every item of the backend's list has.
\<close>

theorem recommendations_as_parsed:
  assumes "getVocabularyRecommendations gen nativeLanguage lvl = Inr ws"
  shows "(gen (vocabularyPrompt nativeLanguage lvl) = Parsed ws
          \<or> gen (vocabularyPrompt nativeLanguage lvl) = NoText \<and> ws = [])
         \<and> ((\<forall>ps. gen (vocabularyPrompt nativeLanguage lvl) = Parsed ps \<longrightarrow>
                (\<forall>w \<in> set ps. 0 \<le> proficiency w \<and> proficiency w \<le> 100))
              \<longrightarrow> (\<forall>w \<in> set ws. 0 \<le> proficiency w \<and> proficiency w \<le> 100))"
  using assms by (auto simp: getVocabularyRecommendations_def split: reply.splits)

theorem recommendations_as_parsed_witness:
  "getVocabularyRecommendations (exBackendWords 70) ''English'' ''HSK 3''
     = Inr [\<lparr>word = ''A'', pinyin = ''a'', meaning = ''first'', culturalNote = None,
              proficiency = 70, category = None, isFavorite = None, isSelected = None\<rparr>]
   \<and> 0 \<le> proficiency \<lparr>word = ''A'', pinyin = ''a'', meaning = ''first'', culturalNote = None,
              proficiency = 70, category = None, isFavorite = None, isSelected = None\<rparr>
   \<and> proficiency \<lparr>word = ''A'', pinyin = ''a'', meaning = ''first'', culturalNote = None,
              proficiency = 70, category = None, isFavorite = None, isSelected = None\<rparr> \<le> 100"
proof -
  have r: "getVocabularyRecommendations (exBackendWords 70) ''English'' ''HSK 3''
     = Inr [\<lparr>word = ''A'', pinyin = ''a'', meaning = ''first'', culturalNote = None,
              proficiency = 70, category = None, isFavorite = None, isSelected = None\<rparr>]"
    by (simp add: getVocabularyRecommendations_def exBackendWords_def)
  show ?thesis
    using r recommendations_as_parsed [OF r] by (simp add: exBackendWords_def)
qed

section \<open>The step index of a review\<close>

lemma reviewInv_iff:
  "reviewInv s =
     (\<forall>d. reviewData s = Some d \<longrightarrow> dialogue d \<noteq> [] \<longrightarrow> reviewStep s \<le> length (dialogue d) - 1)"
  by (simp add: reviewInv_def split: option.splits)

text \<open>
  A click on the page as the current state renders it keeps the step index in range, and
  no click lowers it: the guard of the handler does cap the step index when it tests the
  current one.
\<close>

lemma clickAnswer_current_inv: "reviewInv s \<Longrightarrow> reviewInv (clickAnswer i idx s s)"
  by (auto simp: reviewInv_iff clickAnswer_def answerOnClick_def Let_def split: option.splits)

lemma clickAnswer_mono: "reviewStep s \<le> reviewStep (clickAnswer i idx r s)"
  by (simp add: clickAnswer_def answerOnClick_def Let_def split: option.splits)

lemma exStart_run:
  "run mounted exStartEvents =
     \<lparr>app = initialState\<lparr>activePage := P_dialogue, reviewData := Some exSeedReview\<rparr>,
      exiting = None, crashed = False, inflight = [], reading = 0, unhandled = [], played = []\<rparr>"
  by (simp add: exStartEvents_def sys_defs Let_def)

text \<open>
  C2 fails on the code. A review of three lines is started from the mounted application
  and is on the screen, with step index 0. The user goes to another page; while the
  dialogue page is leaving, its buttons are those of its last render, whose handler
  tests the step index 0 of that render. Four clicks on the right answer of the first
  line take the step index to 4, past the index 2 of the last line.
\<close>

theorem review_step_exceeds_last_line:
  "reviewData (app (run mounted exStartEvents)) = Some exSeedReview
   \<and> reviewStep (app (run mounted exStartEvents)) = 0
   \<and> length (dialogue exSeedReview) - 1 = 2
   \<and> reviewData (app (run mounted (exStartEvents @ exStaleClicks))) = Some exSeedReview
   \<and> reviewStep (app (run mounted (exStartEvents @ exStaleClicks))) = 4"
  by (simp add: run_append exStart_run exStaleClicks_def exSeedReview_def userLine_def
      tutorLine_def initialState_def initialVocabulary_def seedWord_def clickAnswer_def
      answerOnClick_def visibleLines_def isExercise_def truthy_def selected_flag_def
      withApp_def step_def rendered_def rerender_def renderThrows_def pageEffect_def Let_def)

section \<open>The loading flag\<close>

lemma loading_step:
  assumes "loading (app sys)" and "\<forall>k r. e \<noteq> Settle k r"
  shows "loading (app (step sys e))"
  using assms
  by (cases e)
    (auto simp: step_def pageEffect_def fetchRecommendations_begin_def fetchEtymology_begin_def
      startTargetedReview_begin_def playTTS_begin_def chatOnKeyDown_begin_def
      handleImageUpload_begin_def toggleWordSelection_def sampleOnClick_def
      clearImageOnClick_def exitReviewOnClick_def clickAnswer_def answerOnClick_def
      Let_def split: option.splits)

text \<open>
  C3, as the claim states it, fails. A chat call is under way in a state the mounted
  application reaches, and the flag is false; \<open>playTTS\<close> starts its call and leaves the
  flag false. And when refresh is pressed while the first fetch is under way, the first
  of the two calls to settle clears the flag while the other is still under way.
\<close>

theorem loading_flag_untouched_counterexample:
  "inflight (run mounted exChatEvents) = [Call_getDialogueResponse [] ''ni hao'']
   \<and> \<not> loading (app (run mounted exChatEvents))
   \<and> snd (playTTS_begin ''ni hao'' initialState) = Some (Call_generateSpeech ''ni hao'')
   \<and> \<not> loading (fst (playTTS_begin ''ni hao'' initialState))
   \<and> inflight (run mounted exOverlapEvents) = [Call_getVocabularyRecommendations ''English'' ''HSK 3'']
   \<and> \<not> loading (app (run mounted exOverlapEvents))"
  by (simp add: exChatEvents_def exOverlapEvents_def sys_defs chatOnKeyDown_begin_def
      playTTS_begin_def Let_def)

text \<open>
  C3, amended. For the recommendation fetch, the etymology fetch, the review-dialogue
  fetch (when it starts a call) and the image analysis, the handler sets the loading
  flag to true before it starts the call and to false when the call has settled, with a
  value or with an error. While the flag is true, no event other than the settling of a
  service call makes it false.
\<close>

theorem loading_flag_of_fetches:
  "loading (fst (fetchRecommendations_begin r s))
   \<and> \<not> loading (fst (fetchRecommendations_resume rw s))
   \<and> loading (fst (fetchEtymology_begin w s))
   \<and> \<not> loading (fst (fetchEtymology_resume w re s))
   \<and> (snd (startTargetedReview_begin s) \<noteq> None \<longrightarrow> loading (fst (startTargetedReview_begin s)))
   \<and> \<not> loading (fst (startTargetedReview_resume rr s))
   \<and> loading (fst (handleImageUpload_begin dataUrl s))
   \<and> \<not> loading (fst (handleImageUpload_resume rt s))
   \<and> (loading (app sys) \<and> (\<forall>k r. e \<noteq> Settle k r) \<longrightarrow> loading (app (step sys e)))"
proof -
  have "loading (app sys) \<and> (\<forall>k r. e \<noteq> Settle k r) \<longrightarrow> loading (app (step sys e))"
    using loading_step by blast
  moreover have "\<not> loading (fst (fetchRecommendations_resume rw s))"
    by (simp add: fetchRecommendations_resume_def)
  moreover have "\<not> loading (fst (fetchEtymology_resume w re s))"
    by (simp add: fetchEtymology_resume_def)
  moreover have "\<not> loading (fst (startTargetedReview_resume rr s))"
    by (simp add: startTargetedReview_resume_def)
  moreover have "\<not> loading (fst (handleImageUpload_resume rt s))"
    by (simp add: handleImageUpload_resume_def)
  moreover have "snd (startTargetedReview_begin s) \<noteq> None \<longrightarrow> loading (fst (startTargetedReview_begin s))"
    by (simp add: startTargetedReview_begin_def Let_def)
  ultimately show ?thesis
    by (simp add: fetchRecommendations_begin_def fetchEtymology_begin_def
        handleImageUpload_begin_def Let_def)
qed

text \<open>
  The mounted application has its first fetch under way with the flag true; going to
  another page keeps it true, and the failure of the fetch clears it.
\<close>

theorem loading_flag_of_fetches_witness:
  "loading (app mounted) \<and> inflight mounted = [Call_getVocabularyRecommendations ''English'' ''HSK 3'']
   \<and> loading (app (step mounted (Navigate P_vocabulary)))
   \<and> \<not> loading (app (step mounted (Settle 0 (Settled_words (Inl BackendError)))))
   \<and> loading (fst (startTargetedReview_begin initialState))"
  using loading_flag_of_fetches [where r = initialState and s = initialState
      and rw = "Inl BackendError" and w = "[]" and re = "Inl BackendError"
      and rr = "Inl BackendError" and dataUrl = "[]" and rt = "Inl BackendError"
      and sys = mounted and e = "Navigate P_vocabulary"]
  by (simp add: sys_defs Let_def)

section \<open>Failures of the service calls\<close>

text \<open>
  The handlers of the four fetches and \<open>playTTS\<close> have a \<open>try\<close> around their call: when
  the call fails no error leaves them, the fetches set the loading flag to false and
  leave the rest of the state, and \<open>playTTS\<close> plays nothing and leaves the state.
\<close>

lemma fetch_failure_caught:
  "fetchRecommendations_resume (Inl e) s = (s\<lparr>loading := False\<rparr>, None)
   \<and> fetchEtymology_resume w (Inl e) s = (s\<lparr>loading := False\<rparr>, None)
   \<and> startTargetedReview_resume (Inl e) s = (s\<lparr>loading := False\<rparr>, None)
   \<and> handleImageUpload_resume (Inl e) s = (s\<lparr>loading := False\<rparr>, None)
   \<and> playTTS_resume (Inl e) s = (s, None) \<and> playTTS_audio (Inl e) = None"
  by (simp add: fetchRecommendations_resume_def fetchEtymology_resume_def
      startTargetedReview_resume_def handleImageUpload_resume_def playTTS_resume_def
      playTTS_audio_def)

text \<open>
  C4 fails on the code, for the free-chat continuation. The user is on the dialogue page
  with no review and sends a chat line: the user's turn is added to the history and the
  call is under way. The call fails: the handler has no \<open>try\<close>, so the error leaves it
  and is an unhandled rejection.
\<close>

theorem chat_failure_unhandled:
  "inflight (run mounted exChatEvents) = [Call_getDialogueResponse [] ''ni hao'']
   \<and> chatHistory (app (run mounted exChatEvents)) = [\<lparr>role = ''user'', turn_text = ''ni hao''\<rparr>]
   \<and> unhandled (run mounted exChatEvents) = []
   \<and> unhandled (run mounted (exChatEvents @ [Settle 0 (Settled_text (Inl BackendError))]))
       = [BackendError]
   \<and> chatOnKeyDown_resume (Inl BackendError) initialState = (initialState, Some BackendError)"
  by (simp add: exChatEvents_def sys_defs chatOnKeyDown_begin_def chatOnKeyDown_resume_def
      Let_def)

section \<open>From a recommended word to its etymology\<close>

text \<open>
  On the recommendation page as the current state renders it, a click on entry \<open>i\<close> of
  the recommended words starts exactly one service call, \<open>getEtymology\<close> on the word of
  that entry, and the page stays. When that call fails, the call is no longer under way,
  no error is unhandled and the page stays. When it succeeds with an etymology that has
  components, the active page is the etymology page, with the etymology of that word.
\<close>

lemma recommended_word_click:
  assumes "\<not> crashed sys" and "exiting sys = None"
    and "activePage (app sys) = P_recommendation" and "i < length (recommendedWords (app sys))"
  shows "let w = word (recommendedWords (app sys) ! i);
             sys1 = step sys (ClickRecommended i);
             sys2 = step sys1 (Settle (length (inflight sys)) (Settled_etymology r))
         in inflight sys1 = inflight sys @ [Call_getEtymology w]
            \<and> activePage (app sys1) = P_recommendation
            \<and> inflight sys2 = inflight sys
            \<and> unhandled sys2 = unhandled sys
            \<and> (case r of
                  Inr data \<Rightarrow> activePage (app sys2) = P_etymology
                                \<and> currentEtymology (app sys2) = Some (w, data)
                                \<and> (crashed sys2 \<longleftrightarrow> components data = None)
                | Inl e \<Rightarrow> activePage (app sys2) = P_recommendation
                             \<and> currentEtymology (app sys2) = currentEtymology (app sys)
                             \<and> \<not> crashed sys2)"
  using assms
  by (simp add: Let_def step_def rendered_def rerender_def renderThrows_def started_def
      finished_def settle_def fetchEtymology_begin_def fetchEtymology_resume_def
      split: sum.splits)

text \<open>
  C8 fails on the code. Two words are recommended and the user clicks the first: one
  etymology fetch starts, for its word. The backend answers with a response without
  text, for which \<open>getEtymology\<close> returns an object without components. The fetch has
  succeeded and the handler sets the etymology page, but the render of that page throws
  and the application is unmounted: no etymology view comes.
\<close>

theorem etymology_without_components_crashes:
  "getEtymology (\<lambda>p. NoText) exImages ''A'' = Inr \<lparr>components = None, culturalContext = None\<rparr>
   \<and> inflight (run mounted [Settle 0 (Settled_words (Inr exRecommended)), ClickRecommended 0])
       = [Call_getEtymology ''A'']
   \<and> \<not> crashed (run mounted [Settle 0 (Settled_words (Inr exRecommended)), ClickRecommended 0])
   \<and> activePage (app (run mounted exEmptyEtymologyEvents)) = P_etymology
   \<and> crashed (run mounted exEmptyEtymologyEvents)"
  by (simp add: exEmptyEtymologyEvents_def exRecommended_def getEtymology_def sys_defs
      fetchEtymology_begin_def fetchEtymology_resume_def Let_def)

section \<open>Dependent image calls\<close>

lemma tryImage_failed: "imageFailed r \<Longrightarrow> tryImage r url = url"
  by (auto simp: imageFailed_def tryImage_def imageAttempt_def
      split: image_reply.splits list.splits option.splits)

lemma length_radicalImages [simp]: "length (radicalImages img n cs) = length cs"
  by (induction cs arbitrary: n) simp_all

lemma nth_radicalImages:
  "k < length cs \<Longrightarrow>
     radicalImages img n cs ! k =
       (cs ! k)\<lparr>imageUrl := tryImage (img (n + k) (radicalPrompt (cs ! k))) (imageUrl (cs ! k))\<rparr>"
proof (induction cs arbitrary: n k)
  case Nil
  then show ?case by simp
next
  case (Cons c cs)
  show ?case
  proof (cases k)
    case 0
    then show ?thesis by simp
  next
    case (Suc j)
    with Cons.prems have "j < length cs" by simp
    from Cons.IH [OF this, of "n + 1"] show ?thesis using Suc by simp
  qed
qed

lemma length_hintImages [simp]: "length (hintImages img n ls) = length ls"
  by (induction ls arbitrary: n) simp_all

lemma nth_hintImages:
  "k < length ls \<Longrightarrow>
     hintImages img n ls ! k =
       (if truthy (blankWord (ls ! k)) \<and> truthy (hintImagePrompt (ls ! k))
        then (ls ! k)\<lparr>hintImageUrl :=
               tryImage (img (n + k) (textOf (hintImagePrompt (ls ! k)))) (hintImageUrl (ls ! k))\<rparr>
        else ls ! k)"
proof (induction ls arbitrary: n k)
  case Nil
  then show ?case by simp
next
  case (Cons l ls)
  show ?case
  proof (cases k)
    case 0
    then show ?thesis by simp
  next
    case (Suc j)
    with Cons.prems have "j < length ls" by simp
    from Cons.IH [OF this, of "n + 1"] show ?thesis using Suc by simp
  qed
qed

text \<open>
  C7. When the primary call of \<open>getEtymology\<close> gives an object with components, the
  service returns that object whatever the image calls do: it has as many components,
  each with its character and meaning, and a component whose image call failed has no
  image (the parsed component has none). When the primary call of \<open>getReviewDialogue\<close>
  gives an object with a dialogue, the service returns its scenario and its lines
  whatever the image calls do: each line is the parsed one up to its hint image, and a
  line whose image call failed has no hint image. In both, the result is a value, never
  the error of an image call.
\<close>

theorem dependent_image_failure_not_fatal:
  "(gen (etymologyPrompt w) = Parsed data \<and> components data = Some cs \<longrightarrow>
      getEtymology gen img w = Inr (data\<lparr>components := Some (radicalImages img 0 cs)\<rparr>)
      \<and> length (radicalImages img 0 cs) = length cs
      \<and> (\<forall>k < length cs.
            comp_char (radicalImages img 0 cs ! k) = comp_char (cs ! k)
            \<and> comp_meaning (radicalImages img 0 cs ! k) = comp_meaning (cs ! k)
            \<and> (imageFailed (img k (radicalPrompt (cs ! k))) \<and> imageUrl (cs ! k) = None
                 \<longrightarrow> imageUrl (radicalImages img 0 cs ! k) = None)))
   \<and> (genr (reviewPrompt (wordList ws)) = Parsed rdata \<and> json_dialogue rdata = Some ls \<longrightarrow>
      getReviewDialogue genr img ws
        = Inr \<lparr>scenario = json_scenario rdata, dialogue = hintImages img 0 ls\<rparr>
      \<and> length (hintImages img 0 ls) = length ls
      \<and> (\<forall>k < length ls.
            hintImages img 0 ls ! k = (ls ! k)\<lparr>hintImageUrl := hintImageUrl (hintImages img 0 ls ! k)\<rparr>
            \<and> (imageFailed (img k (textOf (hintImagePrompt (ls ! k)))) \<and> hintImageUrl (ls ! k) = None
                 \<longrightarrow> hintImageUrl (hintImages img 0 ls ! k) = None)))"
proof (intro conjI impI allI)
  assume "gen (etymologyPrompt w) = Parsed data \<and> components data = Some cs"
  then show "getEtymology gen img w = Inr (data\<lparr>components := Some (radicalImages img 0 cs)\<rparr>)"
    by (simp add: getEtymology_def)
next
  show "length (radicalImages img 0 cs) = length cs" by simp
next
  fix k assume "k < length cs"
  then show "comp_char (radicalImages img 0 cs ! k) = comp_char (cs ! k)"
    by (simp add: nth_radicalImages)
next
  fix k assume "k < length cs"
  then show "comp_meaning (radicalImages img 0 cs ! k) = comp_meaning (cs ! k)"
    by (simp add: nth_radicalImages)
next
  fix k assume "k < length cs"
    and "imageFailed (img k (radicalPrompt (cs ! k))) \<and> imageUrl (cs ! k) = None"
  then show "imageUrl (radicalImages img 0 cs ! k) = None"
    by (simp add: nth_radicalImages tryImage_failed)
next
  assume "genr (reviewPrompt (wordList ws)) = Parsed rdata \<and> json_dialogue rdata = Some ls"
  then show "getReviewDialogue genr img ws
        = Inr \<lparr>scenario = json_scenario rdata, dialogue = hintImages img 0 ls\<rparr>"
    by (simp add: getReviewDialogue_def)
next
  show "length (hintImages img 0 ls) = length ls" by simp
next
  fix k assume "k < length ls"
  then show "hintImages img 0 ls ! k = (ls ! k)\<lparr>hintImageUrl := hintImageUrl (hintImages img 0 ls ! k)\<rparr>"
    by (simp add: nth_hintImages)
next
  fix k assume "k < length ls"
    and "imageFailed (img k (textOf (hintImagePrompt (ls ! k)))) \<and> hintImageUrl (ls ! k) = None"
  then show "hintImageUrl (hintImages img 0 ls ! k) = None"
    by (simp add: nth_hintImages tryImage_failed)
qed

text \<open>
  With an image backend that rejects the call for the first item and answers the call
  for the second: the etymology and the review come back, the first item without an
  image and the second with one.
\<close>

theorem dependent_image_failure_not_fatal_witness:
  "getEtymology (\<lambda>p. Parsed exEtymology) exImages ''A''
     = Inr \<lparr>components = Some [\<lparr>comp_char = ''a1'', comp_meaning = ''roof'', imageUrl = None\<rparr>,
                                \<lparr>comp_char = ''a2'', comp_meaning = ''pig'',
                                 imageUrl = Some ''data:image/png;base64,QUJD''\<rparr>],
            culturalContext = Some ''home''\<rparr>
   \<and> imageFailed (exImages 0 ''x'')
   \<and> getReviewDialogue (\<lambda>p. Parsed \<lparr>json_scenario = Some ''At the airport'',
          json_dialogue = Some [userLine ''A'', userLine ''C'']\<rparr>) exImages [exWord ''A'' True]
     = Inr \<lparr>scenario = Some ''At the airport'',
            dialogue = [userLine ''A'',
                        (userLine ''C'')\<lparr>hintImageUrl := Some ''data:image/png;base64,QUJD''\<rparr>]\<rparr>"
  using dependent_image_failure_not_fatal [of "\<lambda>p. Parsed exEtymology" "''A''" exEtymology
      "the (components exEtymology)" exImages
      "\<lambda>p. Parsed \<lparr>json_scenario = Some ''At the airport'', json_dialogue = Some [userLine ''A'', userLine ''C'']\<rparr>"
      "[exWord ''A'' True]"
      "\<lparr>json_scenario = Some ''At the airport'', json_dialogue = Some [userLine ''A'', userLine ''C'']\<rparr>"
      "[userLine ''A'', userLine ''C'']"]
  by (simp add: exEtymology_def exImages_def imageFailed_def imageAttempt_def tryImage_def
      imagePrefix_def userLine_def truthy_def textOf_def)

end
